theory Spec2Isabelle
  imports Main "HOL-Library.Word"
begin

section \<open>The QuickJS bridge of module.c\<close>

text \<open>
  module.c is a CPython extension with two types: \<open>Context\<close> (a QuickJS runtime with one
  context) and \<open>Object\<close> (a handle on a JS object that stays callable). The JS engine and
  the Python runtime are outside the file. The embedding keeps the control flow of every
  function of module.c and makes its surroundings explicit:
  \<^item> every call into the engine (\<open>JS_*\<close>) appends an event to a trace, in program order;
  \<^item> what the engine answers is read from an \<open>engine\<close> record of functions of the world
    so far, so a theorem about all engines is a theorem about a black box;
  \<^item> the error indicator of the Python runtime is part of the world: \<open>PyErr_Format\<close> and
    the runtime's own failures set it, and nothing in module.c clears it;
  \<^item> a C function returns an object, \<open>NULL\<close>, or runs into undefined behaviour; what
    the Python caller sees of that (a value, a raised exception, a crash) is what the
    runtime makes of the result and the error indicator.
  \<open>malloc\<close>, \<open>free\<close> and \<open>tp_free\<close> leave no event; \<open>malloc\<close> and the allocation of
  Python objects are taken to succeed where module.c does not check them.
\<close>

subsection \<open>Engine values\<close>

text \<open>Pointers are addresses; \<open>NULL\<close> is address 0.\<close>

type_synonym JSRuntime_ptr = nat
type_synonym JSContext_ptr = nat

definition NULL :: nat where
  "NULL = 0"

text \<open>
  Modelled from the spec: the tags of a Tagged JS Value. They are declared in
  third-party/quickjs.h, which is not under src/; the numbers are those of the QuickJS
  header, and only their being pairwise distinct matters below.
\<close>

definition JS_TAG_STRING :: int where "JS_TAG_STRING = - 7"
definition JS_TAG_OBJECT :: int where "JS_TAG_OBJECT = - 1"
definition JS_TAG_INT :: int where "JS_TAG_INT = 0"
definition JS_TAG_BOOL :: int where "JS_TAG_BOOL = 1"
definition JS_TAG_NULL :: int where "JS_TAG_NULL = 2"
definition JS_TAG_UNDEFINED :: int where "JS_TAG_UNDEFINED = 3"
definition JS_TAG_UNINITIALIZED :: int where "JS_TAG_UNINITIALIZED = 4"
definition JS_TAG_EXCEPTION :: int where "JS_TAG_EXCEPTION = 6"
definition JS_TAG_FLOAT64 :: int where "JS_TAG_FLOAT64 = 7"

text \<open>
  A \<open>JSValue\<close> is a tag and a union of an \<open>int32\<close>, a \<open>float64\<close> (its 64 bits) and a
  pointer. Reading a member other than the stored one does not happen on the values a
  conformant engine produces; the accessors return 0 there.
\<close>

datatype JSValueUnion = U_int32 "32 word" | U_float64 "64 word" | U_ptr nat

record JSValue =
  u :: JSValueUnion
  tag :: int

definition JS_MKVAL :: "int \<Rightarrow> 32 word \<Rightarrow> JSValue" where
  "JS_MKVAL t val = \<lparr>u = U_int32 val, tag = t\<rparr>"

definition JS_NULL :: JSValue where
  "JS_NULL = JS_MKVAL JS_TAG_NULL 0"

definition JS_VALUE_GET_TAG :: "JSValue \<Rightarrow> int" where
  "JS_VALUE_GET_TAG v = tag v"

definition JS_VALUE_GET_INT :: "JSValue \<Rightarrow> 32 word" where
  "JS_VALUE_GET_INT v = (case u v of U_int32 i \<Rightarrow> i | _ \<Rightarrow> 0)"

definition JS_VALUE_GET_BOOL :: "JSValue \<Rightarrow> bool" where
  "JS_VALUE_GET_BOOL v = (JS_VALUE_GET_INT v \<noteq> 0)"

definition JS_VALUE_GET_FLOAT64 :: "JSValue \<Rightarrow> 64 word" where
  "JS_VALUE_GET_FLOAT64 v = (case u v of U_float64 d \<Rightarrow> d | _ \<Rightarrow> 0)"

subsection \<open>Host values\<close>

text \<open>
  \<open>ObjectData\<close> and \<open>ContextData\<close> are the two structs of module.c. The field
  \<open>context\<close> of \<open>ContextData\<close> is called \<open>jscontext\<close> here, to keep it apart from
  the field of \<open>ObjectData\<close>.
\<close>

record ObjectData =
  "context" :: JSContext_ptr
  "object" :: JSValue

record ContextData =
  runtime :: JSRuntime_ptr
  jscontext :: JSContext_ptr

text \<open>
  The Python objects the bridge meets. A \<open>str\<close> is its UTF-8 bytes and a \<open>float\<close> its 64
  bits. \<open>PyOther\<close> stands for an object of any other type (a list, a dict, ...).
\<close>

datatype PyObject =
    PyLong int
  | PyBool bool
  | PyFloat "64 word"
  | PyNone
  | PyUnicode string
  | PyQuickjsObject ObjectData
  | PyOther nat

text \<open>
  \<open>PyLong_Check\<close> holds of \<open>int\<close> and of its subtypes; \<open>bool\<close> is a subtype of \<open>int\<close> in
  Python, so \<open>True\<close> and \<open>False\<close> pass it.
\<close>

fun PyLong_Check :: "PyObject \<Rightarrow> bool" where
  "PyLong_Check (PyLong n) = True"
| "PyLong_Check (PyBool b) = True"
| "PyLong_Check x = False"

fun PyUnicode_Check :: "PyObject \<Rightarrow> bool" where
  "PyUnicode_Check (PyUnicode s) = True"
| "PyUnicode_Check x = False"

text \<open>
  Exceptions. \<open>PyErr\<close> is an exception module.c raises through \<open>PyErr_Format\<close>, with the
  message it formats. \<open>HostErr\<close> is an exception the Python runtime raises by itself;
  its message is the runtime's and is not modelled.
\<close>

datatype exc_kind =
    JSException
  | PyExc_ValueError
  | PyExc_TypeError
  | PyExc_OverflowError
  | PyExc_SystemError
  | PyExc_UnicodeDecodeError

datatype PyErr = PyErr exc_kind string | HostErr exc_kind

subsection \<open>C strings and UTF-8\<close>

text \<open>A C string ends at its first NUL byte.\<close>

definition c_str :: "string \<Rightarrow> string" where
  "c_str s = takeWhile (\<lambda>c. c \<noteq> CHR 0x00) s"

definition byte :: "char \<Rightarrow> nat" where
  "byte c = of_char c"

definition is_cont :: "char \<Rightarrow> bool" where
  "is_cont c = (0x80 \<le> byte c \<and> byte c \<le> 0xBF)"

text \<open>
  One step of the UTF-8 decoder of CPython, at the lead byte \<open>b\<close> followed by \<open>bs\<close>:
  whether a well-formed sequence starts here, and how many bytes after \<open>b\<close> the step
  takes. On an ill-formed sequence the bytes taken are those the decoder reports as
  the error: the lead byte alone when it is no start byte or when the second byte
  does not fit, the bytes before the first one that does not fit otherwise, and all
  that is left when the input ends inside a sequence.
\<close>

definition utf8_scan :: "char \<Rightarrow> string \<Rightarrow> bool \<times> nat" where
  "utf8_scan b bs =
     (let x = byte b in
      if x < 0x80 then (True, 0)
      else if x < 0xC2 then (False, 0)
      else if x < 0xE0 then
        (case bs of
           [] \<Rightarrow> (False, 0)
         | c2 # r \<Rightarrow> if is_cont c2 then (True, 1) else (False, 0))
      else if x < 0xF0 then
        (case bs of
           [] \<Rightarrow> (False, 0)
         | c2 # r \<Rightarrow>
             if \<not> is_cont c2 \<or> (if byte c2 < 0xA0 then x = 0xE0 else x = 0xED)
             then (False, 0)
             else (case r of
                     [] \<Rightarrow> (False, 1)
                   | c3 # r' \<Rightarrow> if is_cont c3 then (True, 2) else (False, 1)))
      else if x < 0xF5 then
        (case bs of
           [] \<Rightarrow> (False, 0)
         | c2 # r \<Rightarrow>
             if \<not> is_cont c2 \<or> (if byte c2 < 0x90 then x = 0xF0 else x = 0xF4)
             then (False, 0)
             else (case r of
                     [] \<Rightarrow> (False, 1)
                   | c3 # r' \<Rightarrow>
                       if \<not> is_cont c3 then (False, 1)
                       else (case r' of
                               [] \<Rightarrow> (False, 2)
                             | c4 # r'' \<Rightarrow> if is_cont c4 then (True, 3) else (False, 2))))
      else (False, 0))"

text \<open>Strict decoding succeeds on well-formed UTF-8 only.\<close>

fun utf8_valid :: "string \<Rightarrow> bool" where
  "utf8_valid [] = True"
| "utf8_valid (b # bs) = (fst (utf8_scan b bs) \<and> utf8_valid (drop (snd (utf8_scan b bs)) bs))"

text \<open>
  Decoding with the error handler \<open>replace\<close> puts U+FFFD (bytes EF BF BD) in the place
  of each ill-formed run. The result is given by its UTF-8 bytes, as every \<open>str\<close> is.
\<close>

definition replacement_character :: string where
  "replacement_character = [CHR 0xEF, CHR 0xBF, CHR 0xBD]"

fun utf8_replace :: "string \<Rightarrow> string" where
  "utf8_replace [] = []"
| "utf8_replace (b # bs) =
     (if fst (utf8_scan b bs) then b # take (snd (utf8_scan b bs)) bs
      else replacement_character)
     @ utf8_replace (drop (snd (utf8_scan b bs)) bs)"

text \<open>Decimal digits, for the \<open>%d\<close> of \<open>PyErr_Format\<close>.\<close>

fun digit_char :: "nat \<Rightarrow> char" where
  "digit_char n = char_of (48 + n mod 10)"

function dec_nat :: "nat \<Rightarrow> string" where
  "dec_nat n = (if n < 10 then [digit_char n] else dec_nat (n div 10) @ [digit_char n])"
  by pat_completeness auto
termination
  by (relation "measure id") auto

definition dec_int :: "int \<Rightarrow> string" where
  "dec_int i = (if i < 0 then CHR ''-'' # dec_nat (nat (- i)) else dec_nat (nat i))"

subsection \<open>The world: engine calls, pending JS exception, Python error indicator\<close>

datatype event =
    EvNewRuntime JSRuntime_ptr
  | EvNewContext JSRuntime_ptr JSContext_ptr
  | EvFreeContext JSContext_ptr
  | EvFreeRuntime JSRuntime_ptr
  | EvEval JSContext_ptr string nat string int
  | EvCall JSContext_ptr JSValue JSValue int "JSValue list"
  | EvNewString JSContext_ptr string
  | EvFreeValue JSContext_ptr JSValue
  | EvGetException JSContext_ptr
  | EvToString JSContext_ptr JSValue
  | EvToCString JSContext_ptr JSValue
  | EvFreeCString JSContext_ptr string

record world =
  trace :: "event list"
  current_exception :: JSValue
  error_indicator :: "PyErr option"

text \<open>
  What a C function of the extension hands back: an object, \<open>NULL\<close>, or nothing defined
  because it ran into undefined behaviour (the world is then the one it had got to).
\<close>

datatype cresult = PyObj PyObject | PyNULL | Undefined

text \<open>What the Python caller of such a function sees.\<close>

datatype outcome = Returns PyObject | Raises PyErr | Crash

text \<open>
  The runtime checks the result of every C function it calls against the error
  indicator: an object with no error set is returned and \<open>NULL\<close> with an error set
  raises that error; an object with an error set, or \<open>NULL\<close> with none, raises
  \<open>SystemError\<close>. A raised exception leaves the indicator to the caller.
\<close>

definition Py_CheckFunctionResult :: "cresult \<times> world \<Rightarrow> outcome \<times> world" where
  "Py_CheckFunctionResult r =
     (case r of
        (PyObj v, w) \<Rightarrow>
          (case error_indicator w of
             None \<Rightarrow> (Returns v, w)
           | Some e \<Rightarrow> (Raises (HostErr PyExc_SystemError), w\<lparr>error_indicator := None\<rparr>))
      | (PyNULL, w) \<Rightarrow>
          (case error_indicator w of
             None \<Rightarrow> (Raises (HostErr PyExc_SystemError), w)
           | Some e \<Rightarrow> (Raises e, w\<lparr>error_indicator := None\<rparr>))
      | (Undefined, w) \<Rightarrow> (Crash, w))"

subsection \<open>The Python C API as module.c uses it\<close>

definition PyErr_Format :: "exc_kind \<Rightarrow> string \<Rightarrow> world \<Rightarrow> world" where
  "PyErr_Format kind msg w = w\<lparr>error_indicator := Some (PyErr kind msg)\<rparr>"

text \<open>The \<open>%s\<close> of \<open>PyErr_Format\<close> decodes the C string as UTF-8 with \<open>replace\<close>.\<close>

definition format_s :: "string \<Rightarrow> string" where
  "format_s cstring = utf8_replace (c_str cstring)"

text \<open>
  \<open>PyLong_AsLong\<close> on a 64-bit \<open>long\<close>: on a value out of range it returns -1 and sets
  \<open>OverflowError\<close>. On an object that is not an \<open>int\<close> it fails too; module.c calls it
  behind \<open>PyLong_Check\<close> only.
\<close>

fun PyLong_AsLong :: "PyObject \<Rightarrow> world \<Rightarrow> int \<times> world" where
  "PyLong_AsLong (PyLong n) w =
     (if - (2 ^ 63) \<le> n \<and> n < 2 ^ 63 then (n, w)
      else (- 1, w\<lparr>error_indicator := Some (HostErr PyExc_OverflowError)\<rparr>))"
| "PyLong_AsLong (PyBool b) w = (if b then 1 else 0, w)"
| "PyLong_AsLong x w = (- 1, w\<lparr>error_indicator := Some (HostErr PyExc_TypeError)\<rparr>)"

text \<open>
  \<open>PyUnicode_AsUTF8\<close> returns a pointer to the UTF-8 buffer that the \<open>str\<close> object
  keeps: the buffer belongs to the \<open>str\<close>, not to the caller. \<open>PyMem_Free\<close> is defined
  on what \<open>PyMem_Malloc\<close> returned and undefined on any other pointer.
\<close>

datatype buffer_owner = from_PyMem_Malloc | kept_by_str

fun PyUnicode_AsUTF8 :: "PyObject \<Rightarrow> string \<times> buffer_owner" where
  "PyUnicode_AsUTF8 (PyUnicode s) = (c_str s, kept_by_str)"
| "PyUnicode_AsUTF8 x = ([], kept_by_str)"

fun PyMem_Free_defined :: "buffer_owner \<Rightarrow> bool" where
  "PyMem_Free_defined from_PyMem_Malloc = True"
| "PyMem_Free_defined kept_by_str = False"

text \<open>
  \<open>Py_BuildValue("s", cstring)\<close> decodes the C string as UTF-8, strictly: on bytes that
  are not well-formed it returns \<open>NULL\<close> with \<open>UnicodeDecodeError\<close> set.
\<close>

definition Py_BuildValue_s :: "string \<Rightarrow> world \<Rightarrow> PyObject option \<times> world" where
  "Py_BuildValue_s cstring w =
     (if utf8_valid (c_str cstring) then (Some (PyUnicode (c_str cstring)), w)
      else (None, w\<lparr>error_indicator := Some (HostErr PyExc_UnicodeDecodeError)\<rparr>))"

subsection \<open>The engine\<close>

text \<open>
  The engine as a black box: each field answers one API function from the world so far
  and the arguments of the call. \<open>JS_Eval\<close> and \<open>JS_Call\<close> also say which exception is
  pending afterwards. \<open>unwritten\<close> is the content of an array slot that \<open>malloc\<close>
  returned and nobody wrote.
\<close>

record engine =
  JS_NewRuntime_ret :: "world \<Rightarrow> JSRuntime_ptr"
  JS_NewContext_ret :: "world \<Rightarrow> JSRuntime_ptr \<Rightarrow> JSContext_ptr"
  JS_Eval_ret :: "world \<Rightarrow> JSContext_ptr \<Rightarrow> string \<Rightarrow> JSValue \<times> JSValue"
  JS_Call_ret :: "world \<Rightarrow> JSContext_ptr \<Rightarrow> JSValue \<Rightarrow> JSValue \<Rightarrow> int \<Rightarrow> JSValue list
    \<Rightarrow> JSValue \<times> JSValue"
  JS_NewString_ret :: "world \<Rightarrow> JSContext_ptr \<Rightarrow> string \<Rightarrow> JSValue"
  JS_ToString_ret :: "world \<Rightarrow> JSContext_ptr \<Rightarrow> JSValue \<Rightarrow> JSValue"
  JS_ToCString_ret :: "world \<Rightarrow> JSContext_ptr \<Rightarrow> JSValue \<Rightarrow> string"
  unwritten :: JSValue

definition emit :: "event \<Rightarrow> world \<Rightarrow> world" where
  "emit e w = w\<lparr>trace := trace w @ [e]\<rparr>"

text \<open>The events a run from \<open>w\<close> to \<open>w'\<close> added.\<close>

definition emitted :: "world \<Rightarrow> world \<Rightarrow> event list" where
  "emitted w w' = drop (length (trace w)) (trace w')"

definition JS_NewRuntime :: "engine \<Rightarrow> world \<Rightarrow> JSRuntime_ptr \<times> world" where
  "JS_NewRuntime E w = (let rt = JS_NewRuntime_ret E w in (rt, emit (EvNewRuntime rt) w))"

definition JS_NewContext :: "engine \<Rightarrow> JSRuntime_ptr \<Rightarrow> world \<Rightarrow> JSContext_ptr \<times> world" where
  "JS_NewContext E rt w =
     (let c = JS_NewContext_ret E w rt in (c, emit (EvNewContext rt c) w))"

definition JS_FreeContext :: "JSContext_ptr \<Rightarrow> world \<Rightarrow> world" where
  "JS_FreeContext c w = emit (EvFreeContext c) w"

definition JS_FreeRuntime :: "JSRuntime_ptr \<Rightarrow> world \<Rightarrow> world" where
  "JS_FreeRuntime rt w = emit (EvFreeRuntime rt) w"

definition JS_EVAL_TYPE_GLOBAL :: int where
  "JS_EVAL_TYPE_GLOBAL = 0"

definition JS_Eval ::
  "engine \<Rightarrow> JSContext_ptr \<Rightarrow> string \<Rightarrow> nat \<Rightarrow> string \<Rightarrow> int \<Rightarrow> world
     \<Rightarrow> JSValue \<times> world" where
  "JS_Eval E c code len filename flags w =
     (let (v, pending) = JS_Eval_ret E w c code
      in (v, (emit (EvEval c code len filename flags) w)\<lparr>current_exception := pending\<rparr>))"

definition JS_Call ::
  "engine \<Rightarrow> JSContext_ptr \<Rightarrow> JSValue \<Rightarrow> JSValue \<Rightarrow> int \<Rightarrow> JSValue list \<Rightarrow> world
     \<Rightarrow> JSValue \<times> world" where
  "JS_Call E c func this argc argv w =
     (let (v, pending) = JS_Call_ret E w c func this argc argv
      in (v, (emit (EvCall c func this argc argv) w)\<lparr>current_exception := pending\<rparr>))"

definition JS_NewString :: "engine \<Rightarrow> JSContext_ptr \<Rightarrow> string \<Rightarrow> world \<Rightarrow> JSValue \<times> world" where
  "JS_NewString E c s w = (JS_NewString_ret E w c s, emit (EvNewString c s) w)"

definition JS_FreeValue :: "JSContext_ptr \<Rightarrow> JSValue \<Rightarrow> world \<Rightarrow> world" where
  "JS_FreeValue c v w = emit (EvFreeValue c v) w"

text \<open>
  Modelled from the spec: \<open>JS_GetException\<close>, whose code is in the engine and not under
  src/. It fetches the pending exception from the context: the caller gets it, and the
  engine's exception state is cleared (\<open>JS_NULL\<close> takes its place).
\<close>

definition JS_GetException :: "JSContext_ptr \<Rightarrow> world \<Rightarrow> JSValue \<times> world" where
  "JS_GetException c w =
     (current_exception w, (emit (EvGetException c) w)\<lparr>current_exception := JS_NULL\<rparr>)"

text \<open>
  Modelled from the spec: the stringification of the exception. \<open>JS_ToString\<close> answers
  with a JS value and \<open>JS_ToCString\<close> with a C string (not \<open>NULL\<close>), and neither changes
  the pending exception.
\<close>

definition JS_ToString :: "engine \<Rightarrow> JSContext_ptr \<Rightarrow> JSValue \<Rightarrow> world \<Rightarrow> JSValue \<times> world" where
  "JS_ToString E c v w = (JS_ToString_ret E w c v, emit (EvToString c v) w)"

definition JS_ToCString :: "engine \<Rightarrow> JSContext_ptr \<Rightarrow> JSValue \<Rightarrow> world \<Rightarrow> string \<times> world" where
  "JS_ToCString E c v w = (JS_ToCString_ret E w c v, emit (EvToCString c v) w)"

definition JS_FreeCString :: "JSContext_ptr \<Rightarrow> string \<Rightarrow> world \<Rightarrow> world" where
  "JS_FreeCString c s w = emit (EvFreeCString c s) w"

subsection \<open>The Object type\<close>

text \<open>
  \<open>object_new\<close> gets what \<open>tp_alloc\<close> returned: \<open>None\<close> for \<open>NULL\<close>, or the new struct
  with whatever its fields hold. It writes the field \<open>context\<close> alone.
\<close>

definition object_new :: "ObjectData option \<Rightarrow> ObjectData option" where
  "object_new alloc =
     (case alloc of None \<Rightarrow> None | Some self \<Rightarrow> Some (self\<lparr>context := NULL\<rparr>))"

definition object_dealloc :: "ObjectData \<Rightarrow> world \<Rightarrow> world" where
  "object_dealloc self w =
     (if context self \<noteq> NULL then JS_FreeValue (context self) (object self) w else w)"

text \<open>
  \<open>PyObject_CallObject((PyObject *)&Object, NULL)\<close> calls the type: \<open>object_new\<close> runs on
  fresh memory (\<open>tp_alloc\<close> is taken to succeed), and the runtime checks its result
  against the error indicator as it does for every C function. So with an error set it
  returns \<open>NULL\<close>.
\<close>

definition PyObject_CallObject_Object :: "engine \<Rightarrow> world \<Rightarrow> ObjectData option \<times> world" where
  "PyObject_CallObject_Object E w =
     (case error_indicator w of
        None \<Rightarrow> (object_new (Some \<lparr>context = NULL, object = unwritten E\<rparr>), w)
      | Some e \<Rightarrow> (None, w\<lparr>error_indicator := Some (HostErr PyExc_SystemError)\<rparr>))"

text \<open>
  The common exit of \<open>quickjs_to_python\<close> (lines 119 to 123): release, then return
  \<open>return_value\<close>, which is \<open>NULL\<close> where no branch has set it.
\<close>

definition quickjs_to_python_exit ::
  "JSContext_ptr \<Rightarrow> JSValue \<Rightarrow> PyObject option \<Rightarrow> world \<Rightarrow> cresult \<times> world" where
  "quickjs_to_python_exit c val return_value w =
     (case return_value of None \<Rightarrow> PyNULL | Some v \<Rightarrow> PyObj v, JS_FreeValue c val w)"

text \<open>
  In the object branch \<open>object->context = context\<close> writes through the pointer that
  \<open>PyObject_CallObject\<close> returned, unchecked: through \<open>NULL\<close> that is undefined.
\<close>

definition quickjs_to_python ::
  "engine \<Rightarrow> JSContext_ptr \<Rightarrow> JSValue \<Rightarrow> world \<Rightarrow> cresult \<times> world" where
  "quickjs_to_python E c val w =
     (let tg = JS_VALUE_GET_TAG val in
      if tg = JS_TAG_INT then
        quickjs_to_python_exit c val (Some (PyLong (sint (JS_VALUE_GET_INT val)))) w
      else if tg = JS_TAG_BOOL then
        quickjs_to_python_exit c val (Some (PyBool (JS_VALUE_GET_BOOL val))) w
      else if tg = JS_TAG_NULL then quickjs_to_python_exit c val (Some PyNone) w
      else if tg = JS_TAG_UNDEFINED then quickjs_to_python_exit c val (Some PyNone) w
      else if tg = JS_TAG_UNINITIALIZED then quickjs_to_python_exit c val (Some PyNone) w
      else if tg = JS_TAG_EXCEPTION then
        (let (exception, w1) = JS_GetException c w;
             (error_string, w2) = JS_ToString E c exception w1;
             (cstring, w3) = JS_ToCString E c error_string w2;
             w4 = PyErr_Format JSException (format_s cstring) w3;
             w5 = JS_FreeCString c cstring w4;
             w6 = JS_FreeValue c error_string w5;
             w7 = JS_FreeValue c exception w6
         in quickjs_to_python_exit c val None w7)
      else if tg = JS_TAG_FLOAT64 then
        quickjs_to_python_exit c val (Some (PyFloat (JS_VALUE_GET_FLOAT64 val))) w
      else if tg = JS_TAG_STRING then
        (let (cstring, w1) = JS_ToCString E c val w;
             (return_value, w2) = Py_BuildValue_s cstring w1;
             w3 = JS_FreeCString c cstring w2
         in quickjs_to_python_exit c val return_value w3)
      else if tg = JS_TAG_OBJECT then
        (case PyObject_CallObject_Object E w of
           (None, w1) \<Rightarrow> (Undefined, w1)
         | (Some ob, w1) \<Rightarrow> (PyObj (PyQuickjsObject (ob\<lparr>context := c, object := val\<rparr>)), w1))
      else
        quickjs_to_python_exit c val None
          (PyErr_Format PyExc_ValueError (''Unknown quickjs tag: '' @ dec_int tg) w))"

text \<open>The tags \<open>quickjs_to_python\<close> has a branch for.\<close>

definition known_tags :: "int list" where
  "known_tags = [JS_TAG_INT, JS_TAG_BOOL, JS_TAG_NULL, JS_TAG_UNDEFINED, JS_TAG_UNINITIALIZED,
     JS_TAG_EXCEPTION, JS_TAG_FLOAT64, JS_TAG_STRING, JS_TAG_OBJECT]"

text \<open>
  The first loop of \<open>object_call\<close> (lines 39 to 47), the type check of every item: at
  the first item that fails it sets the error and the function returns \<open>NULL\<close>.
\<close>

fun object_call_check :: "PyObject list \<Rightarrow> world \<Rightarrow> bool \<times> world" where
  "object_call_check [] w = (True, w)"
| "object_call_check (item # items) w =
     (if PyLong_Check item then object_call_check items w
      else if PyUnicode_Check item then object_call_check items w
      else (False,
            PyErr_Format PyExc_ValueError ''Unsupported type when calling quickjs object'' w))"

text \<open>
  The second loop (lines 49 to 58) fills \<open>jsargs\<close>; \<open>None\<close> says that it ran into
  undefined behaviour. The \<open>int32\<close> member takes the low 32 bits of the \<open>long\<close>. For a
  \<open>str\<close> the loop makes the JS string and then calls \<open>PyMem_Free\<close> on the buffer that
  \<open>PyUnicode_AsUTF8\<close> returned (line 56). An item of neither type leaves its slot
  unwritten.
\<close>

fun object_call_convert ::
  "engine \<Rightarrow> JSContext_ptr \<Rightarrow> PyObject list \<Rightarrow> world \<Rightarrow> JSValue list option \<times> world" where
  "object_call_convert E c [] w = (Some [], w)"
| "object_call_convert E c (item # items) w =
     (if PyLong_Check item then
        (let (n, w1) = PyLong_AsLong item w;
             (rest, w2) = object_call_convert E c items w1
         in (map_option ((#) (JS_MKVAL JS_TAG_INT (word_of_int n))) rest, w2))
      else if PyUnicode_Check item then
        (let (cstring, owner) = PyUnicode_AsUTF8 item;
             (slot, w1) = JS_NewString E c cstring w
         in if PyMem_Free_defined owner then
              (let (rest, w2) = object_call_convert E c items w1
               in (map_option ((#) slot) rest, w2))
            else (None, w1))
      else
        (let (rest, w2) = object_call_convert E c items w
         in (map_option ((#) (unwritten E)) rest, w2)))"

text \<open>The third loop (lines 60 to 62).\<close>

fun object_call_release :: "JSContext_ptr \<Rightarrow> JSValue list \<Rightarrow> world \<Rightarrow> world" where
  "object_call_release c [] w = w"
| "object_call_release c (v # vs) w = object_call_release c vs (JS_FreeValue c v w)"

text \<open>\<open>args\<close> is the argument tuple; \<open>kwds\<close> is not read. \<open>argc\<close> is the literal 1.\<close>

definition object_call ::
  "engine \<Rightarrow> ObjectData \<Rightarrow> PyObject list \<Rightarrow> world \<Rightarrow> cresult \<times> world" where
  "object_call E self args w =
     (if context self = NULL then (PyObj PyNone, w)
      else
        (case object_call_check args w of
           (False, wc) \<Rightarrow> (PyNULL, wc)
         | (True, wc) \<Rightarrow>
             (case object_call_convert E (context self) args wc of
                (None, w1) \<Rightarrow> (Undefined, w1)
              | (Some jsargs, w1) \<Rightarrow>
                  (let (val, w2) = JS_Call E (context self) (object self) JS_NULL 1 jsargs w1;
                       w3 = object_call_release (context self) jsargs w2
                   in quickjs_to_python E (context self) val w3))))"

text \<open>What Python code sees of calling a handle.\<close>

definition invoke ::
  "engine \<Rightarrow> ObjectData \<Rightarrow> PyObject list \<Rightarrow> world \<Rightarrow> outcome \<times> world" where
  "invoke E self args w = Py_CheckFunctionResult (object_call E self args w)"

subsection \<open>The Context type\<close>

definition context_new ::
  "engine \<Rightarrow> ContextData option \<Rightarrow> world \<Rightarrow> ContextData option \<times> world" where
  "context_new E alloc w =
     (case alloc of
        None \<Rightarrow> (None, w)
      | Some self \<Rightarrow>
          (let (rt, w1) = JS_NewRuntime E w;
               self1 = self\<lparr>runtime := rt\<rparr>;
               (c, w2) = JS_NewContext E (runtime self1) w1
           in (Some (self1\<lparr>jscontext := c\<rparr>), w2)))"

definition context_dealloc :: "ContextData \<Rightarrow> world \<Rightarrow> world" where
  "context_dealloc self w = JS_FreeRuntime (runtime self) (JS_FreeContext (jscontext self) w)"

text \<open>
  \<open>parsed\<close> is what \<open>PyArg_ParseTuple(args, "s", &code)\<close> produced: the error it set, or
  the C string.
\<close>

definition context_eval ::
  "engine \<Rightarrow> ContextData \<Rightarrow> PyErr + string \<Rightarrow> world \<Rightarrow> cresult \<times> world" where
  "context_eval E self parsed w =
     (case parsed of
        Inl err \<Rightarrow> (PyNULL, w\<lparr>error_indicator := Some err\<rparr>)
      | Inr code \<Rightarrow>
          (let (val, w1) =
                 JS_Eval E (jscontext self) code (length (c_str code)) ''<input>''
                   JS_EVAL_TYPE_GLOBAL w
           in quickjs_to_python E (jscontext self) val w1))"

text \<open>What Python code sees of \<open>eval\<close>.\<close>

definition evaluate ::
  "engine \<Rightarrow> ContextData \<Rightarrow> PyErr + string \<Rightarrow> world \<Rightarrow> outcome \<times> world" where
  "evaluate E self parsed w = Py_CheckFunctionResult (context_eval E self parsed w)"

subsection \<open>A session's life\<close>

text \<open>
  What the host does with a session between its creation and its destruction: it
  evaluates, calls handles and lets handles die, in any order. A step that crashes
  ends the run: \<open>None\<close>.
\<close>

datatype host_step =
    Eval "PyErr + string"
  | Call ObjectData "PyObject list"
  | Drop ObjectData

fun host_do :: "engine \<Rightarrow> ContextData \<Rightarrow> host_step \<Rightarrow> world \<Rightarrow> world option" where
  "host_do E self (Eval parsed) w =
     (case evaluate E self parsed w of (Crash, w1) \<Rightarrow> None | (r, w1) \<Rightarrow> Some w1)"
| "host_do E self (Call h args) w =
     (case invoke E h args w of (Crash, w1) \<Rightarrow> None | (r, w1) \<Rightarrow> Some w1)"
| "host_do E self (Drop h) w = Some (object_dealloc h w)"

fun host_run :: "engine \<Rightarrow> ContextData \<Rightarrow> host_step list \<Rightarrow> world \<Rightarrow> world option" where
  "host_run E self [] w = Some w"
| "host_run E self (step # steps) w =
     (case host_do E self step w of None \<Rightarrow> None | Some w1 \<Rightarrow> host_run E self steps w1)"

text \<open>A context is gone once \<open>JS_FreeContext\<close> was called on it.\<close>

definition context_freed :: "world \<Rightarrow> JSContext_ptr \<Rightarrow> bool" where
  "context_freed w c = (EvFreeContext c \<in> set (trace w))"

fun is_FreeValue :: "event \<Rightarrow> bool" where
  "is_FreeValue (EvFreeValue c v) = True"
| "is_FreeValue e = False"

fun is_session_release :: "event \<Rightarrow> bool" where
  "is_session_release (EvFreeContext c) = True"
| "is_session_release (EvFreeRuntime rt) = True"
| "is_session_release e = False"

fun is_NewString :: "event \<Rightarrow> bool" where
  "is_NewString (EvNewString c s) = True"
| "is_NewString e = False"

subsection \<open>An engine to run the bridge on\<close>

text \<open>
  A small engine for concrete runs: runtime 1, context 2; new strings are pointers to 7;
  a call returns its first argument, or throws the object at 9 when there is none or
  the first argument is a string; evaluating \<open>f\<close> gives the function object at 5 and
  anything else throws the object at 9.
\<close>

definition js_str :: JSValue where
  "js_str = \<lparr>u = U_ptr 7, tag = JS_TAG_STRING\<rparr>"

definition js_fun :: JSValue where
  "js_fun = \<lparr>u = U_ptr 5, tag = JS_TAG_OBJECT\<rparr>"

definition js_err :: JSValue where
  "js_err = \<lparr>u = U_ptr 9, tag = JS_TAG_OBJECT\<rparr>"

definition JS_EXCEPTION :: JSValue where
  "JS_EXCEPTION = JS_MKVAL JS_TAG_EXCEPTION 0"

definition toy_engine :: engine where
  "toy_engine =
     \<lparr>JS_NewRuntime_ret = (\<lambda>w. 1),
      JS_NewContext_ret = (\<lambda>w rt. 2),
      JS_Eval_ret = (\<lambda>w c code.
         if code = ''f'' then (js_fun, current_exception w) else (JS_EXCEPTION, js_err)),
      JS_Call_ret = (\<lambda>w c func this argc argv.
         case argv of
           [] \<Rightarrow> (JS_EXCEPTION, js_err)
         | v # vs \<Rightarrow> if tag v = JS_TAG_STRING then (JS_EXCEPTION, js_err)
                     else (v, current_exception w)),
      JS_NewString_ret = (\<lambda>w c s. js_str),
      JS_ToString_ret = (\<lambda>w c v. js_str),
      JS_ToCString_ret = (\<lambda>w c v. ''Error: boom''),
      unwritten = JS_MKVAL JS_TAG_UNINITIALIZED 0\<rparr>"

text \<open>The same engine, except that it cannot create a context.\<close>

definition toy_engine_no_context :: engine where
  "toy_engine_no_context = toy_engine\<lparr>JS_NewContext_ret := (\<lambda>w rt. NULL)\<rparr>"

definition w0 :: world where
  "w0 = \<lparr>trace = [], current_exception = JS_NULL, error_indicator = None\<rparr>"

definition toy_handle :: ObjectData where
  "toy_handle = \<lparr>context = 2, object = js_fun\<rparr>"

definition toy_session :: ContextData where
  "toy_session = \<lparr>runtime = 1, jscontext = 2\<rparr>"

text \<open>
  A run that takes the error paths: an evaluation that throws, a call with a float, a
  call with an integer beyond a C \<open>long\<close>, an \<open>eval\<close> whose argument does not parse, a
  call that succeeds, and the death of the handle.
\<close>

definition toy_steps :: "host_step list" where
  "toy_steps =
     [Eval (Inr ''throw 1''), Call toy_handle [PyFloat 0], Call toy_handle [PyLong (2 ^ 63)],
      Eval (Inl (HostErr PyExc_TypeError)), Call toy_handle [PyLong 1], Drop toy_handle]"

section \<open>Properties\<close>

lemmas JS_TAG_defs =
  JS_TAG_STRING_def JS_TAG_OBJECT_def JS_TAG_INT_def JS_TAG_BOOL_def JS_TAG_NULL_def
  JS_TAG_UNDEFINED_def JS_TAG_UNINITIALIZED_def JS_TAG_EXCEPTION_def JS_TAG_FLOAT64_def

subsection \<open>What each function adds to the trace\<close>

lemma trace_emit [simp]: "trace (emit e w) = trace w @ [e]"
  by (simp add: emit_def)

lemma current_exception_emit [simp]: "current_exception (emit e w) = current_exception w"
  by (simp add: emit_def)

lemma error_indicator_emit [simp]: "error_indicator (emit e w) = error_indicator w"
  by (simp add: emit_def)

lemma PyErr_Format_sel [simp]:
  "trace (PyErr_Format k m w) = trace w"
  "current_exception (PyErr_Format k m w) = current_exception w"
  "error_indicator (PyErr_Format k m w) = Some (PyErr k m)"
  by (simp_all add: PyErr_Format_def)

lemma emitted_append [simp]: "trace w' = trace w @ evs \<Longrightarrow> emitted w w' = evs"
  by (simp add: emitted_def)

lemma emitted_self [simp]: "emitted w w = []"
  by (simp add: emitted_def)

lemma emitted_same [simp]: "trace w' = trace w \<Longrightarrow> emitted w w' = []"
  by (simp add: emitted_def)

lemma JS_Call_trace [simp]:
  "trace (snd (JS_Call E c func this argc argv w)) = trace w @ [EvCall c func this argc argv]"
  by (simp add: JS_Call_def split_def Let_def)

lemma JS_Call_error_indicator [simp]:
  "error_indicator (snd (JS_Call E c func this argc argv w)) = error_indicator w"
  by (simp add: JS_Call_def split_def Let_def)

lemma JS_Eval_trace [simp]:
  "trace (snd (JS_Eval E c code len filename flags w))
     = trace w @ [EvEval c code len filename flags]"
  by (simp add: JS_Eval_def split_def Let_def)

lemma PyLong_AsLong_trace [simp]: "trace (snd (PyLong_AsLong item w)) = trace w"
  by (cases item) simp_all

lemma PyLong_AsLong_value: "fst (PyLong_AsLong item w) = fst (PyLong_AsLong item w')"
  by (cases item) simp_all

lemma release_trace:
  "trace (object_call_release c vs w) = trace w @ map (EvFreeValue c) vs"
  by (induction vs arbitrary: w) (simp_all add: JS_FreeValue_def)

lemma release_error_indicator [simp]:
  "error_indicator (object_call_release c vs w) = error_indicator w"
  by (induction vs arbitrary: w) (simp_all add: JS_FreeValue_def)

lemma convert_trace:
  "\<exists>evs. trace (snd (object_call_convert E c args w)) = trace w @ evs
     \<and> (\<forall>e\<in>set evs. is_NewString e)"
proof (induction args arbitrary: w)
  case Nil
  show ?case by simp
next
  case (Cons item items)
  show ?case
  proof (cases "PyLong_Check item")
    case True
    define w1 where "w1 = snd (PyLong_AsLong item w)"
    have eq: "snd (object_call_convert E c (item # items) w)
        = snd (object_call_convert E c items w1)"
      using True by (simp add: split_def Let_def w1_def)
    have "trace w1 = trace w" by (simp add: w1_def)
    with Cons.IH [of w1] eq show ?thesis by simp
  next
    case False
    show ?thesis
    proof (cases "PyUnicode_Check item")
      case True
      then obtain s where s: "item = PyUnicode s" by (cases item) simp_all
      have "trace (snd (object_call_convert E c (item # items) w))
          = trace w @ [EvNewString c (c_str s)]"
        by (simp add: s JS_NewString_def)
      then show ?thesis by simp
    next
      case nostr: False
      have "snd (object_call_convert E c (item # items) w)
          = snd (object_call_convert E c items w)"
        using False nostr by (simp add: split_def Let_def)
      with Cons.IH [of w] show ?thesis by simp
    qed
  qed
qed

lemmas to_python_unfold =
  quickjs_to_python_def quickjs_to_python_exit_def Let_def split_def JS_VALUE_GET_TAG_def
  JS_FreeValue_def JS_GetException_def JS_ToString_def JS_ToCString_def JS_FreeCString_def
  Py_BuildValue_s_def

lemma to_python_trace:
  "\<exists>evs. trace (snd (quickjs_to_python E c v w)) = trace w @ evs
     \<and> filter is_session_release evs = []"
  by (simp add: to_python_unfold PyObject_CallObject_Object_def split: option.split)

lemma check_trace [simp]: "trace (snd (object_call_check args w)) = trace w"
  by (induction args) simp_all

lemma call_trace:
  "\<exists>evs. trace (snd (object_call E self args w)) = trace w @ evs
     \<and> filter is_session_release evs = []"
proof (cases "context self = NULL")
  case True
  then show ?thesis by (simp add: object_call_def)
next
  case ctx: False
  obtain ok wc where chk: "object_call_check args w = (ok, wc)"
    by (cases "object_call_check args w")
  have twc: "trace wc = trace w"
    using check_trace [of args w] by (simp add: chk)
  show ?thesis
  proof (cases ok)
    case False
    with ctx chk twc show ?thesis by (simp add: object_call_def)
  next
    case True
    obtain r w1 where conv: "object_call_convert E (context self) args wc = (r, w1)"
      by (cases "object_call_convert E (context self) args wc")
    obtain evs1 where e1: "trace w1 = trace w @ evs1" "\<forall>e\<in>set evs1. is_NewString e"
      using convert_trace [of E "context self" args wc] by (auto simp: conv twc)
    have n1: "filter is_session_release evs1 = []"
      using e1(2) by (induction evs1) (auto elim: is_NewString.elims)
    show ?thesis
    proof (cases r)
      case None
      with ctx chk True conv e1(1) n1 show ?thesis by (simp add: object_call_def)
    next
      case (Some jsargs)
      define called where "called = JS_Call E (context self) (object self) JS_NULL 1 jsargs w1"
      define w3 where "w3 = object_call_release (context self) jsargs (snd called)"
      have eq: "object_call E self args w = quickjs_to_python E (context self) (fst called) w3"
        using ctx chk True conv Some
        by (simp add: object_call_def split_def Let_def called_def w3_def)
      have e3: "trace w3 = trace w1
          @ (EvCall (context self) (object self) JS_NULL 1 jsargs
             # map (EvFreeValue (context self)) jsargs)"
        by (simp add: w3_def called_def release_trace)
      have n3: "filter is_session_release (map (EvFreeValue c) vs) = []" for c vs
        by (induction vs) auto
      obtain evs4 where e4:
        "trace (snd (quickjs_to_python E (context self) (fst called) w3)) = trace w3 @ evs4"
        "filter is_session_release evs4 = []"
        using to_python_trace by blast
      have "trace (snd (object_call E self args w))
          = trace w @ (evs1 @ (EvCall (context self) (object self) JS_NULL 1 jsargs
             # map (EvFreeValue (context self)) jsargs) @ evs4)"
        by (simp add: eq e1(1) e3 e4(1))
      moreover have "filter is_session_release
          (evs1 @ (EvCall (context self) (object self) JS_NULL 1 jsargs
             # map (EvFreeValue (context self)) jsargs) @ evs4) = []"
        by (simp add: n1 n3 e4(2))
      ultimately show ?thesis by blast
    qed
  qed
qed

lemma eval_trace:
  "\<exists>evs. trace (snd (context_eval E self parsed w)) = trace w @ evs
     \<and> filter is_session_release evs = []"
proof (cases parsed)
  case (Inl err)
  then show ?thesis by (simp add: context_eval_def)
next
  case (Inr code)
  define ev where
    "ev = EvEval (jscontext self) code (length (c_str code)) ''<input>'' JS_EVAL_TYPE_GLOBAL"
  define r where
    "r = JS_Eval E (jscontext self) code (length (c_str code)) ''<input>'' JS_EVAL_TYPE_GLOBAL w"
  have eq: "context_eval E self parsed w = quickjs_to_python E (jscontext self) (fst r) (snd r)"
    using Inr by (simp add: context_eval_def split_def Let_def r_def)
  have e1: "trace (snd r) = trace w @ [ev]"
    by (simp add: r_def ev_def)
  have n1: "\<not> is_session_release ev"
    by (simp add: ev_def)
  obtain evs where e2:
    "trace (snd (quickjs_to_python E (jscontext self) (fst r) (snd r))) = trace (snd r) @ evs"
    "filter is_session_release evs = []"
    using to_python_trace by blast
  have "trace (snd (context_eval E self parsed w)) = trace w @ (ev # evs)
     \<and> filter is_session_release (ev # evs) = []"
    by (simp add: eq e1 e2 n1)
  then show ?thesis by blast
qed

lemma dealloc_trace:
  "\<exists>evs. trace (object_dealloc h w) = trace w @ evs \<and> filter is_session_release evs = []"
  by (simp add: object_dealloc_def JS_FreeValue_def)

lemma check_result_trace [simp]:
  "trace (snd (Py_CheckFunctionResult r)) = trace (snd r)"
  by (cases r) (simp add: Py_CheckFunctionResult_def split: cresult.split option.split)

lemma host_do_trace:
  assumes "host_do E self step w = Some w1"
  shows "\<exists>evs. trace w1 = trace w @ evs \<and> filter is_session_release evs = []"
proof (cases step)
  case (Eval parsed)
  with assms have "w1 = snd (evaluate E self parsed w)"
    by (auto split: prod.splits outcome.splits)
  then show ?thesis by (simp add: evaluate_def eval_trace)
next
  case (Call h args)
  with assms have "w1 = snd (invoke E h args w)"
    by (auto split: prod.splits outcome.splits)
  then show ?thesis by (simp add: invoke_def call_trace)
next
  case (Drop h)
  with assms have "w1 = object_dealloc h w" by simp
  then show ?thesis by (simp add: dealloc_trace)
qed

lemma host_run_trace:
  "host_run E self steps w = Some w' \<Longrightarrow>
   \<exists>evs. trace w' = trace w @ evs \<and> filter is_session_release evs = []"
proof (induction steps arbitrary: w)
  case Nil
  then show ?case by simp
next
  case (Cons step steps)
  from Cons.prems obtain w1 where s: "host_do E self step w = Some w1"
    and r: "host_run E self steps w1 = Some w'"
    by (auto split: option.splits)
  obtain evs1 where e1: "trace w1 = trace w @ evs1" "filter is_session_release evs1 = []"
    using host_do_trace [OF s] by blast
  obtain evs2 where e2: "trace w' = trace w1 @ evs2" "filter is_session_release evs2 = []"
    using Cons.IH [OF r] by blast
  have "trace w' = trace w @ (evs1 @ evs2) \<and> filter is_session_release (evs1 @ evs2) = []"
    by (simp add: e1 e2)
  then show ?case by blast
qed


subsection \<open>The type check and the conversion of the arguments\<close>

lemma check_rejects:
  "\<exists>item\<in>set args. \<not> PyLong_Check item \<and> \<not> PyUnicode_Check item \<Longrightarrow>
   object_call_check args w =
     (False, PyErr_Format PyExc_ValueError ''Unsupported type when calling quickjs object'' w)"
  by (induction args) auto

lemma check_accepts:
  "\<forall>item\<in>set args. PyLong_Check item \<or> PyUnicode_Check item \<Longrightarrow>
   object_call_check args w = (True, w)"
  by (induction args) auto

lemma convert_ints:
  "\<forall>item\<in>set args. PyLong_Check item \<Longrightarrow>
   fst (object_call_convert E c args w)
     = Some (map (\<lambda>item. JS_MKVAL JS_TAG_INT (word_of_int (fst (PyLong_AsLong item w)))) args)
   \<and> trace (snd (object_call_convert E c args w)) = trace w"
proof (induction args arbitrary: w)
  case Nil
  show ?case by simp
next
  case (Cons item items)
  define w1 where "w1 = snd (PyLong_AsLong item w)"
  have v: "fst (PyLong_AsLong x w1) = fst (PyLong_AsLong x w)" for x
    by (rule PyLong_AsLong_value)
  from Cons.prems have "\<forall>item\<in>set items. PyLong_Check item" by simp
  from Cons.IH [OF this, of w1] Cons.prems show ?case
    by (simp add: split_def Let_def w1_def [symmetric] v) (simp add: w1_def)
qed

lemma convert_str:
  "\<exists>item\<in>set args. PyUnicode_Check item \<Longrightarrow> fst (object_call_convert E c args w) = None"
proof (induction args arbitrary: w)
  case Nil
  then show ?case by simp
next
  case (Cons item items)
  show ?case
  proof (cases "PyUnicode_Check item")
    case True
    then obtain s where "item = PyUnicode s" by (cases item) simp_all
    then show ?thesis by (simp add: split_def Let_def)
  next
    case False
    with Cons.prems have "\<exists>item\<in>set items. PyUnicode_Check item" by simp
    from Cons.IH [OF this] False show ?thesis
      by (simp add: split_def Let_def)
  qed
qed

subsection \<open>The branches of \<open>quickjs_to_python\<close>\<close>

lemma to_python_int:
  "tag v = JS_TAG_INT \<Longrightarrow>
   quickjs_to_python E c v w
     = (PyObj (PyLong (sint (JS_VALUE_GET_INT v))), emit (EvFreeValue c v) w)"
  by (simp add: to_python_unfold)

lemma to_python_object:
  "tag v = JS_TAG_OBJECT \<Longrightarrow> error_indicator w = None \<Longrightarrow>
   quickjs_to_python E c v w = (PyObj (PyQuickjsObject \<lparr>context = c, object = v\<rparr>), w)"
  by (simp add: to_python_unfold JS_TAG_defs PyObject_CallObject_Object_def object_new_def)

text \<open>
  With a Python error pending, the handle is not made: \<open>PyObject_CallObject\<close> returns
  \<open>NULL\<close> and the next line writes through it.
\<close>

lemma to_python_object_error_set:
  "tag v = JS_TAG_OBJECT \<Longrightarrow> error_indicator w = Some e \<Longrightarrow>
   fst (quickjs_to_python E c v w) = Undefined"
  by (simp add: to_python_unfold JS_TAG_defs PyObject_CallObject_Object_def)

lemma to_python_exception_raises:
  "tag v = JS_TAG_EXCEPTION \<Longrightarrow>
   \<exists>msg. fst (Py_CheckFunctionResult (quickjs_to_python E c v w))
     = Raises (PyErr JSException msg)"
  by (simp add: to_python_unfold JS_TAG_defs Py_CheckFunctionResult_def)

lemma to_python_exception_frees:
  "tag v = JS_TAG_EXCEPTION \<Longrightarrow>
   filter is_FreeValue (emitted w (snd (quickjs_to_python E c v w))) =
     [EvFreeValue c (fst (JS_ToString E c (current_exception w) (snd (JS_GetException c w)))),
      EvFreeValue c (current_exception w), EvFreeValue c v]"
  by (simp add: to_python_unfold JS_TAG_defs)

lemma to_python_plain_frees:
  "tag v \<noteq> JS_TAG_OBJECT \<Longrightarrow> tag v \<noteq> JS_TAG_EXCEPTION \<Longrightarrow>
   filter is_FreeValue (emitted w (snd (quickjs_to_python E c v w))) = [EvFreeValue c v]"
  by (simp add: to_python_unfold)

lemma to_python_plain_result:
  "tag v \<noteq> JS_TAG_OBJECT \<Longrightarrow> fst (quickjs_to_python E c v w) \<noteq> PyObj (PyQuickjsObject h)"
  by (simp add: to_python_unfold split: option.split)

lemma to_python_unknown:
  "tag v \<notin> set known_tags \<Longrightarrow>
   quickjs_to_python E c v w =
     (PyNULL,
      emit (EvFreeValue c v)
        (PyErr_Format PyExc_ValueError (''Unknown quickjs tag: '' @ dec_int (tag v)) w))"
  by (simp add: to_python_unfold known_tags_def)

text \<open>
  A JS string becomes a \<open>str\<close> when its C string is well-formed UTF-8; when it is not,
  \<open>Py_BuildValue\<close> fails and Python code sees a \<open>UnicodeDecodeError\<close>. The JS value is
  released either way.
\<close>

lemma to_python_string:
  "tag v = JS_TAG_STRING \<Longrightarrow> error_indicator w = None \<Longrightarrow>
   fst (Py_CheckFunctionResult (quickjs_to_python E c v w)) =
     (if utf8_valid (c_str (JS_ToCString_ret E w c v))
      then Returns (PyUnicode (c_str (JS_ToCString_ret E w c v)))
      else Raises (HostErr PyExc_UnicodeDecodeError))"
  by (simp add: to_python_unfold JS_TAG_defs Py_CheckFunctionResult_def)


lemma utf8_replace_surrogate:
  "utf8_replace [CHR 0xED, CHR 0xA0, CHR 0x80]
     = replacement_character @ replacement_character @ replacement_character"
  by (simp add: utf8_scan_def byte_def is_cont_def)

subsection \<open>The toy engine\<close>

lemma toy_engine_sel:
  "JS_NewRuntime_ret toy_engine w = 1"
  "JS_NewContext_ret toy_engine w rt = 2"
  "JS_Eval_ret toy_engine w c code =
     (if code = ''f'' then (js_fun, current_exception w) else (JS_EXCEPTION, js_err))"
  "JS_Call_ret toy_engine w c func this argc argv =
     (case argv of
           [] \<Rightarrow> (JS_EXCEPTION, js_err)
         | v # vs \<Rightarrow> if tag v = JS_TAG_STRING then (JS_EXCEPTION, js_err)
                     else (v, current_exception w))"
  "JS_NewString_ret toy_engine w c s = js_str"
  "JS_ToString_ret toy_engine w c v = js_str"
  "JS_ToCString_ret toy_engine w c v = ''Error: boom''"
  "unwritten toy_engine = JS_MKVAL JS_TAG_UNINITIALIZED 0"
  by (simp_all add: toy_engine_def)

lemma toy_tags:
  "tag js_str = JS_TAG_STRING" "tag js_fun = JS_TAG_OBJECT" "tag js_err = JS_TAG_OBJECT"
  "tag JS_EXCEPTION = JS_TAG_EXCEPTION" "tag JS_NULL = JS_TAG_NULL" "tag (JS_MKVAL t x) = t"
  "JS_VALUE_GET_INT (JS_MKVAL t x) = x"
  by (simp_all add: js_str_def js_fun_def js_err_def JS_EXCEPTION_def JS_NULL_def JS_MKVAL_def
      JS_VALUE_GET_INT_def)

lemma toy_handle_sel:
  "context toy_handle = 2" "object toy_handle = js_fun" "context toy_handle \<noteq> NULL"
  "toy_handle = \<lparr>context = 2, object = js_fun\<rparr>" "NULL \<noteq> (2::nat)" "(2::nat) \<noteq> NULL"
  by (simp_all add: toy_handle_def NULL_def)

lemma w0_sel:
  "trace w0 = []" "current_exception w0 = JS_NULL" "error_indicator w0 = None"
  by (simp_all add: w0_def)


subsection \<open>Calling a handle\<close>

text \<open>
  C1. The claim: on a handle with a valid context and arguments that pass the type
  check, \<open>invoke\<close> calls the held JS object with \<open>this\<close> bound to JS null and the whole
  converted argument list, so that the engine receives as many arguments as the host
  passed. The code converts every argument, in order, and binds \<open>this\<close> to \<open>JS_NULL\<close>,
  but the argument count it hands to \<open>JS_Call\<close> is the literal 1: called with the two
  integers 1 and 2, the engine is told of one argument (and answers with the first).
\<close>

theorem object_call_passes_argc_one:
  "object_call toy_engine toy_handle [PyLong 1, PyLong 2] w0 =
     (PyObj (PyLong 1),
      \<lparr>trace = [EvCall 2 js_fun JS_NULL 1 [JS_MKVAL JS_TAG_INT 1, JS_MKVAL JS_TAG_INT 2],
                EvFreeValue 2 (JS_MKVAL JS_TAG_INT 1),
                EvFreeValue 2 (JS_MKVAL JS_TAG_INT 2),
                EvFreeValue 2 (JS_MKVAL JS_TAG_INT 1)],
       current_exception = JS_NULL, error_indicator = None\<rparr>)"
proof -
  have chk: "object_call_check [PyLong 1, PyLong 2] w0 = (True, w0)"
    by simp
  have conv: "object_call_convert toy_engine 2 [PyLong 1, PyLong 2] w0
      = (Some [JS_MKVAL JS_TAG_INT 1, JS_MKVAL JS_TAG_INT 2], w0)"
    by simp
  have call: "JS_Call toy_engine 2 js_fun JS_NULL 1 [JS_MKVAL JS_TAG_INT 1, JS_MKVAL JS_TAG_INT 2] w0
      = (JS_MKVAL JS_TAG_INT 1,
         \<lparr>trace = [EvCall 2 js_fun JS_NULL 1 [JS_MKVAL JS_TAG_INT 1, JS_MKVAL JS_TAG_INT 2]],
          current_exception = JS_NULL, error_indicator = None\<rparr>)"
    by (simp add: JS_Call_def toy_engine_sel toy_tags JS_TAG_defs emit_def w0_def)
  show ?thesis
    by (simp add: object_call_def toy_handle_sel chk conv call JS_FreeValue_def emit_def
        to_python_int toy_tags del: object_call_convert.simps object_call_check.simps)
qed

text \<open>
  The count does not depend on the arguments: on every valid call with integer
  arguments the engine is told of one argument, while the array holds one value for
  each argument of the host.
\<close>

lemma object_call_event:
  assumes "context self \<noteq> NULL" and "\<forall>item\<in>set args. PyLong_Check item"
  shows "\<exists>post jsargs.
     emitted w (snd (object_call E self args w))
       = EvCall (context self) (object self) JS_NULL 1 jsargs # post
     \<and> length jsargs = length args"
proof -
  define jsargs where
    "jsargs = map (\<lambda>item. JS_MKVAL JS_TAG_INT (word_of_int (fst (PyLong_AsLong item w)))) args"
  define w1 where "w1 = snd (object_call_convert E (context self) args w)"
  define called where "called = JS_Call E (context self) (object self) JS_NULL 1 jsargs w1"
  define released where "released = object_call_release (context self) jsargs (snd called)"
  have chk: "object_call_check args w = (True, w)"
    using assms(2) by (simp add: check_accepts)
  have conv: "object_call_convert E (context self) args w = (Some jsargs, w1)"
    using convert_ints [OF assms(2), of E "context self" w]
    by (simp add: jsargs_def w1_def prod_eq_iff)
  have t1: "trace w1 = trace w"
    using convert_ints [OF assms(2), of E "context self" w] by (simp add: w1_def)
  obtain evs where e: "trace (snd (quickjs_to_python E (context self) (fst called) released))
      = trace released @ evs"
    using to_python_trace by blast
  have eq: "object_call E self args w
      = quickjs_to_python E (context self) (fst called) released"
    using assms(1) by (simp add: object_call_def chk conv split_def Let_def released_def called_def)
  have t_call: "trace (snd called)
      = trace w1 @ [EvCall (context self) (object self) JS_NULL 1 jsargs]"
    by (simp add: called_def)
  have t_rel: "trace released = trace (snd called) @ map (EvFreeValue (context self)) jsargs"
    by (simp add: released_def release_trace)
  have "trace (snd (object_call E self args w))
      = trace w @ (EvCall (context self) (object self) JS_NULL 1 jsargs
          # (map (EvFreeValue (context self)) jsargs @ evs))"
    by (simp add: eq e t_rel t_call t1)
  then have "emitted w (snd (object_call E self args w))
      = EvCall (context self) (object self) JS_NULL 1 jsargs
          # (map (EvFreeValue (context self)) jsargs @ evs)"
    by (rule emitted_append)
  moreover have "length jsargs = length args"
    by (simp add: jsargs_def)
  ultimately show ?thesis by blast
qed

text \<open>
  C7, as the code has it. On a handle whose context is \<open>NULL\<close> (a handle that was never
  bound), \<open>invoke\<close> returns \<open>None\<close> for every argument sequence: it raises nothing and
  the world is as before.
\<close>

theorem invoke_without_context:
  "context self = NULL \<Longrightarrow>
   object_call E self args w = (PyObj PyNone, w)
   \<and> (error_indicator w = None \<longrightarrow> invoke E self args w = (Returns PyNone, w))"
  by (simp add: object_call_def invoke_def Py_CheckFunctionResult_def)

theorem invoke_without_context_witness:
  "context \<lparr>context = NULL, object = js_fun\<rparr> = NULL
   \<and> error_indicator w0 = None
   \<and> object_call toy_engine \<lparr>context = NULL, object = js_fun\<rparr> [PyLong 41] w0
       = (PyObj PyNone, w0)
   \<and> invoke toy_engine \<lparr>context = NULL, object = js_fun\<rparr> [PyLong 41] w0
       = (Returns PyNone, w0)"
  using invoke_without_context
    [of "\<lparr>context = NULL, object = js_fun\<rparr>" toy_engine "[PyLong 41]" w0]
  by (simp add: w0_sel)

text \<open>
  For a context that is not valid any more the statement fails. Nothing in module.c
  resets the context of a handle; after its session was destroyed the handle still
  holds the freed context, and \<open>invoke\<close> calls the engine on it.
\<close>

theorem invoke_without_context_counterexample:
  "context_freed (context_dealloc toy_session w0) (context toy_handle)
   \<and> invoke toy_engine toy_handle [PyLong 1] (context_dealloc toy_session w0) =
       (Returns (PyLong 1),
        \<lparr>trace = [EvFreeContext 2, EvFreeRuntime 1,
                  EvCall 2 js_fun JS_NULL 1 [JS_MKVAL JS_TAG_INT 1],
                  EvFreeValue 2 (JS_MKVAL JS_TAG_INT 1), EvFreeValue 2 (JS_MKVAL JS_TAG_INT 1)],
         current_exception = JS_NULL, error_indicator = None\<rparr>)"
proof -
  define w1 where "w1 = context_dealloc toy_session w0"
  have w1: "w1 = \<lparr>trace = [EvFreeContext 2, EvFreeRuntime 1], current_exception = JS_NULL,
      error_indicator = None\<rparr>"
    by (simp add: w1_def context_dealloc_def JS_FreeContext_def JS_FreeRuntime_def emit_def
        toy_session_def w0_def)
  have freed: "context_freed w1 (context toy_handle)"
    by (simp add: context_freed_def w1 toy_handle_sel)
  have chk: "object_call_check [PyLong 1] w1 = (True, w1)"
    by simp
  have conv: "object_call_convert toy_engine 2 [PyLong 1] w1 = (Some [JS_MKVAL JS_TAG_INT 1], w1)"
    by simp
  have call: "JS_Call toy_engine 2 js_fun JS_NULL 1 [JS_MKVAL JS_TAG_INT 1] w1
      = (JS_MKVAL JS_TAG_INT 1,
         \<lparr>trace = [EvFreeContext 2, EvFreeRuntime 1,
                   EvCall 2 js_fun JS_NULL 1 [JS_MKVAL JS_TAG_INT 1]],
          current_exception = JS_NULL, error_indicator = None\<rparr>)"
    by (simp add: JS_Call_def toy_engine_sel toy_tags JS_TAG_defs emit_def w1)
  have "invoke toy_engine toy_handle [PyLong 1] w1 =
       (Returns (PyLong 1),
        \<lparr>trace = [EvFreeContext 2, EvFreeRuntime 1,
                  EvCall 2 js_fun JS_NULL 1 [JS_MKVAL JS_TAG_INT 1],
                  EvFreeValue 2 (JS_MKVAL JS_TAG_INT 1), EvFreeValue 2 (JS_MKVAL JS_TAG_INT 1)],
         current_exception = JS_NULL, error_indicator = None\<rparr>)"
    by (simp add: invoke_def object_call_def toy_handle_sel chk conv call JS_FreeValue_def emit_def
        to_python_int toy_tags Py_CheckFunctionResult_def
        del: object_call_convert.simps object_call_check.simps)
  with freed show ?thesis by (simp add: w1_def)
qed

subsection \<open>Converting a result\<close>

text \<open>
  C8. \<open>to_host\<close> maps a value tagged null, undefined or uninitialized to the one host
  value \<open>None\<close>, and sets no error.
\<close>

theorem absence_tags_to_none:
  "tag v = JS_TAG_NULL \<or> tag v = JS_TAG_UNDEFINED \<or> tag v = JS_TAG_UNINITIALIZED \<Longrightarrow>
   fst (quickjs_to_python E c v w) = PyObj PyNone
   \<and> error_indicator (snd (quickjs_to_python E c v w)) = error_indicator w"
  by (auto simp: to_python_unfold JS_TAG_defs)

theorem absence_tags_to_none_witness:
  "fst (quickjs_to_python toy_engine 2 (JS_MKVAL JS_TAG_NULL 0) w0) = PyObj PyNone
   \<and> fst (quickjs_to_python toy_engine 2 (JS_MKVAL JS_TAG_UNDEFINED 0) w0) = PyObj PyNone
   \<and> fst (quickjs_to_python toy_engine 2 (JS_MKVAL JS_TAG_UNINITIALIZED 0) w0) = PyObj PyNone"
  using absence_tags_to_none [of "JS_MKVAL JS_TAG_NULL 0" toy_engine 2 w0]
    absence_tags_to_none [of "JS_MKVAL JS_TAG_UNDEFINED 0" toy_engine 2 w0]
    absence_tags_to_none [of "JS_MKVAL JS_TAG_UNINITIALIZED 0" toy_engine 2 w0]
  by (simp add: toy_tags)




subsection \<open>The life of a handle\<close>

text \<open>
  C10. A handle made by \<open>object_new\<close> has no context (its field is \<open>NULL\<close>, whatever
  the fresh memory held). Destroying a handle releases its JS value, once, if its
  context is set, and calls the engine not at all if it is not; so destroying a handle
  that was never bound leaves the world as it was and passes its unset JS value to
  nobody.
\<close>

theorem handle_new_and_dealloc:
  "object_new None = None
   \<and> object_new (Some mem) = Some (mem\<lparr>context := NULL\<rparr>)
   \<and> emitted w (object_dealloc self w) =
       (if context self \<noteq> NULL then [EvFreeValue (context self) (object self)] else [])
   \<and> object_dealloc (the (object_new (Some mem))) w = w"
  by (simp add: object_new_def object_dealloc_def JS_FreeValue_def)

theorem handle_new_and_dealloc_witness:
  "object_new (Some \<lparr>context = 3, object = js_str\<rparr>) = Some \<lparr>context = NULL, object = js_str\<rparr>
   \<and> emitted w0 (object_dealloc toy_handle w0) = [EvFreeValue 2 js_fun]
   \<and> object_dealloc (the (object_new (Some \<lparr>context = 3, object = js_str\<rparr>))) w0 = w0"
proof -
  have c: "context toy_handle \<noteq> NULL" "context toy_handle = 2" "object toy_handle = js_fun"
    by (simp_all add: toy_handle_def NULL_def)
  show ?thesis
    using handle_new_and_dealloc [of "\<lparr>context = 3, object = js_str\<rparr>" w0 toy_handle] c
    by auto
qed

subsection \<open>Ownership of JS values\<close>

text \<open>
  What \<open>to_host\<close> does with the value it gets: a value of any tag but object and
  exception marker is released once and no handle is made; on the exception marker the
  releases are, in order, the string form, the fetched exception and the marker, and no
  handle is made; an object value is not released and goes into the one new handle
  that is returned (when no Python error is pending).
\<close>

lemma to_host_consumes_once:
  "(tag v \<noteq> JS_TAG_OBJECT \<and> tag v \<noteq> JS_TAG_EXCEPTION \<longrightarrow>
      filter is_FreeValue (emitted w (snd (quickjs_to_python E c v w))) = [EvFreeValue c v]
      \<and> (\<forall>h. fst (quickjs_to_python E c v w) \<noteq> PyObj (PyQuickjsObject h)))
   \<and> (tag v = JS_TAG_EXCEPTION \<longrightarrow>
      filter is_FreeValue (emitted w (snd (quickjs_to_python E c v w))) =
        [EvFreeValue c (fst (JS_ToString E c (current_exception w) (snd (JS_GetException c w)))),
         EvFreeValue c (current_exception w), EvFreeValue c v]
      \<and> (\<forall>h. fst (quickjs_to_python E c v w) \<noteq> PyObj (PyQuickjsObject h)))
   \<and> (tag v = JS_TAG_OBJECT \<and> error_indicator w = None \<longrightarrow>
      quickjs_to_python E c v w = (PyObj (PyQuickjsObject \<lparr>context = c, object = v\<rparr>), w))"
proof -
  have exc: "tag v = JS_TAG_EXCEPTION \<longrightarrow> tag v \<noteq> JS_TAG_OBJECT"
    by (simp add: JS_TAG_defs)
  show ?thesis
    using exc by (simp add: to_python_plain_frees to_python_plain_result
        to_python_exception_frees to_python_object)
qed

text \<open>
  With integer arguments \<open>invoke\<close> releases what it built: the engine call comes first,
  the releases right after it are those of the converted arguments, one each and in
  order, and then the result of the call goes through \<open>to_host\<close>.
\<close>

lemma invoke_releases_int_arguments:
  assumes "context self \<noteq> NULL" and "\<forall>item\<in>set args. PyLong_Check item"
  shows "\<exists>jsargs called released.
     jsargs = map (\<lambda>item. JS_MKVAL JS_TAG_INT (word_of_int (fst (PyLong_AsLong item w)))) args
     \<and> trace (snd called)
         = trace w @ [EvCall (context self) (object self) JS_NULL 1 jsargs]
     \<and> emitted (snd called) released = map (EvFreeValue (context self)) jsargs
     \<and> object_call E self args w = quickjs_to_python E (context self) (fst called) released"
proof -
  define jsargs where
    "jsargs = map (\<lambda>item. JS_MKVAL JS_TAG_INT (word_of_int (fst (PyLong_AsLong item w)))) args"
  define w1 where "w1 = snd (object_call_convert E (context self) args w)"
  define called where "called = JS_Call E (context self) (object self) JS_NULL 1 jsargs w1"
  define released where "released = object_call_release (context self) jsargs (snd called)"
  have chk: "object_call_check args w = (True, w)"
    using assms(2) by (simp add: check_accepts)
  have conv: "object_call_convert E (context self) args w = (Some jsargs, w1)"
    using convert_ints [OF assms(2), of E "context self" w]
    by (simp add: jsargs_def w1_def prod_eq_iff)
  have t1: "trace w1 = trace w"
    using convert_ints [OF assms(2), of E "context self" w] by (simp add: w1_def)
  have eq: "object_call E self args w
      = quickjs_to_python E (context self) (fst called) released"
    using assms(1) by (simp add: object_call_def chk conv split_def Let_def released_def called_def)
  have t_call: "trace (snd called)
      = trace w @ [EvCall (context self) (object self) JS_NULL 1 jsargs]"
    by (simp add: called_def t1)
  have t_rel: "emitted (snd called) released = map (EvFreeValue (context self)) jsargs"
    by (simp add: released_def release_trace)
  from eq t_call t_rel show ?thesis
    using jsargs_def by blast
qed

text \<open>
  C3. The claim: every JS value that crosses the bridge is consumed exactly once, and
  every argument value that \<open>invoke\<close> builds is released once after the engine call.
  With a \<open>str\<close> argument the code does not get there. It makes the JS string and then
  calls \<open>PyMem_Free\<close> on the buffer of \<open>PyUnicode_AsUTF8\<close>, which belongs to the \<open>str\<close>
  (line 56): that is undefined. Called with 1 and \<open>'a'\<close>, the trace ends with the
  creation of the JS string: no engine call, and no release of the string.
\<close>

theorem string_argument_never_released:
  "object_call toy_engine toy_handle [PyLong 1, PyUnicode ''a''] w0 =
     (Undefined,
      \<lparr>trace = [EvNewString 2 ''a''], current_exception = JS_NULL, error_indicator = None\<rparr>)"
proof -
  have chk: "object_call_check [PyLong 1, PyUnicode ''a''] w0 = (True, w0)"
    by simp
  have cs: "c_str ''a'' = ''a''"
    by (simp add: c_str_def)
  have conv: "object_call_convert toy_engine 2 [PyLong 1, PyUnicode ''a''] w0
      = (None, \<lparr>trace = [EvNewString 2 ''a''], current_exception = JS_NULL,
                error_indicator = None\<rparr>)"
    by (simp add: cs JS_NewString_def emit_def w0_def)
  show ?thesis
    by (simp add: object_call_def toy_handle_sel chk conv
        del: object_call_convert.simps object_call_check.simps)
qed

text \<open>
  The same for every call that gets as far as the conversion with a \<open>str\<close> among its
  arguments: the call is undefined, and up to there nothing was released.
\<close>

lemma invoke_str_undefined:
  assumes "context self \<noteq> NULL"
    and "\<forall>item\<in>set args. PyLong_Check item \<or> PyUnicode_Check item"
    and "\<exists>item\<in>set args. PyUnicode_Check item"
  shows "fst (object_call E self args w) = Undefined"
    and "fst (invoke E self args w) = Crash"
    and "filter is_FreeValue (emitted w (snd (object_call E self args w))) = []"
proof -
  obtain w1 where conv: "object_call_convert E (context self) args w = (None, w1)"
    using convert_str [OF assms(3), of E "context self" w]
    by (cases "object_call_convert E (context self) args w") simp
  have eq: "object_call E self args w = (Undefined, w1)"
    using assms(1) by (simp add: object_call_def check_accepts [OF assms(2)] conv)
  show "fst (object_call E self args w) = Undefined"
    by (simp add: eq)
  show "fst (invoke E self args w) = Crash"
    by (simp add: invoke_def eq Py_CheckFunctionResult_def)
  obtain evs where e: "trace w1 = trace w @ evs" "\<forall>e\<in>set evs. is_NewString e"
    using convert_trace [of E "context self" args w] by (auto simp: conv)
  have "filter is_FreeValue evs = []"
    using e(2) by (induction evs) (auto elim: is_NewString.elims)
  then show "filter is_FreeValue (emitted w (snd (object_call E self args w))) = []"
    by (simp add: eq e(1))
qed

subsection \<open>The kinds of error\<close>

text \<open>
  C2, as the code has it. Python code sees a translated JS exception as a
  \<open>JSException\<close> with a message, and it sees the unknown-tag error and the rejection
  of an unsupported argument type as a \<open>ValueError\<close>, each with its message.
\<close>

theorem bridge_error_kinds:
  "(tag v = JS_TAG_EXCEPTION \<longrightarrow>
      (\<exists>msg. fst (Py_CheckFunctionResult (quickjs_to_python E c v w))
         = Raises (PyErr JSException msg)))
   \<and> (tag v \<notin> set known_tags \<longrightarrow>
      fst (Py_CheckFunctionResult (quickjs_to_python E c v w)) =
        Raises (PyErr PyExc_ValueError (''Unknown quickjs tag: '' @ dec_int (tag v))))
   \<and> (context self \<noteq> NULL \<and> (\<exists>item\<in>set args. \<not> PyLong_Check item \<and> \<not> PyUnicode_Check item)
        \<longrightarrow> fst (invoke E self args w) =
          Raises (PyErr PyExc_ValueError ''Unsupported type when calling quickjs object''))"
proof -
  have 1: "tag v = JS_TAG_EXCEPTION \<longrightarrow>
      (\<exists>msg. fst (Py_CheckFunctionResult (quickjs_to_python E c v w))
         = Raises (PyErr JSException msg))"
    by (simp add: to_python_exception_raises)
  have 2: "tag v \<notin> set known_tags \<longrightarrow>
      fst (Py_CheckFunctionResult (quickjs_to_python E c v w)) =
        Raises (PyErr PyExc_ValueError (''Unknown quickjs tag: '' @ dec_int (tag v)))"
    by (simp add: to_python_unknown Py_CheckFunctionResult_def JS_FreeValue_def)
  have 3: "context self \<noteq> NULL \<and> (\<exists>item\<in>set args. \<not> PyLong_Check item \<and> \<not> PyUnicode_Check item)
        \<longrightarrow> fst (invoke E self args w) =
          Raises (PyErr PyExc_ValueError ''Unsupported type when calling quickjs object'')"
    by (simp add: invoke_def object_call_def check_rejects Py_CheckFunctionResult_def)
  from 1 2 3 show ?thesis by blast
qed

theorem bridge_error_kinds_witness:
  "tag JS_EXCEPTION = JS_TAG_EXCEPTION
   \<and> (\<exists>msg. fst (Py_CheckFunctionResult (quickjs_to_python toy_engine 2 JS_EXCEPTION w0))
         = Raises (PyErr JSException msg))
   \<and> tag (JS_MKVAL 5 0) \<notin> set known_tags
   \<and> fst (Py_CheckFunctionResult (quickjs_to_python toy_engine 2 (JS_MKVAL 5 0) w0)) =
        Raises (PyErr PyExc_ValueError (''Unknown quickjs tag: '' @ dec_int (tag (JS_MKVAL 5 0))))
   \<and> context toy_handle \<noteq> NULL
   \<and> \<not> PyLong_Check (PyFloat 0) \<and> \<not> PyUnicode_Check (PyFloat 0)
   \<and> fst (invoke toy_engine toy_handle [PyLong 3, PyFloat 0] w0) =
        Raises (PyErr PyExc_ValueError ''Unsupported type when calling quickjs object'')"
proof -
  have h1: "tag JS_EXCEPTION = JS_TAG_EXCEPTION"
    by (simp add: toy_tags)
  have h2: "tag (JS_MKVAL 5 0) \<notin> set known_tags"
    by (simp add: known_tags_def JS_TAG_defs toy_tags)
  have h3: "context toy_handle \<noteq> NULL \<and>
      (\<exists>item\<in>set [PyLong 3, PyFloat 0]. \<not> PyLong_Check item \<and> \<not> PyUnicode_Check item)"
    by (simp add: toy_handle_sel)
  note t = bridge_error_kinds [where E = toy_engine and c = 2 and w = w0
      and self = toy_handle and args = "[PyLong 3, PyFloat 0]"]
  from t [where v = JS_EXCEPTION] h1
  have c1: "\<exists>msg. fst (Py_CheckFunctionResult (quickjs_to_python toy_engine 2 JS_EXCEPTION w0))
      = Raises (PyErr JSException msg)"
    by blast
  from t [where v = "JS_MKVAL 5 0"] h2 h3
  have c2: "fst (Py_CheckFunctionResult (quickjs_to_python toy_engine 2 (JS_MKVAL 5 0) w0)) =
        Raises (PyErr PyExc_ValueError (''Unknown quickjs tag: '' @ dec_int (tag (JS_MKVAL 5 0))))"
    and c3: "fst (invoke toy_engine toy_handle [PyLong 3, PyFloat 0] w0) =
        Raises (PyErr PyExc_ValueError ''Unsupported type when calling quickjs object'')"
    by blast+
  from h1 h2 h3 c1 c2 c3 show ?thesis by simp
qed

text \<open>
  The statement that every failure of the bridge is a \<open>JSException\<close> fails: a float
  argument and a value of tag 5 are both answered with a \<open>ValueError\<close>.
\<close>

theorem bridge_error_kinds_counterexample:
  "fst (invoke toy_engine toy_handle [PyFloat 0] w0) =
     Raises (PyErr PyExc_ValueError ''Unsupported type when calling quickjs object'')
   \<and> fst (Py_CheckFunctionResult (quickjs_to_python toy_engine 2 (JS_MKVAL 5 0) w0)) =
     Raises (PyErr PyExc_ValueError ''Unknown quickjs tag: 5'')
   \<and> PyExc_ValueError \<noteq> JSException"
proof -
  have d: "dec_int 5 = ''5''"
    by code_simp
  have "5 \<notin> set known_tags"
    by (simp add: known_tags_def JS_TAG_defs)
  then have "fst (Py_CheckFunctionResult (quickjs_to_python toy_engine 2 (JS_MKVAL 5 0) w0)) =
     Raises (PyErr PyExc_ValueError ''Unknown quickjs tag: 5'')"
    by (simp add: to_python_unknown toy_tags d Py_CheckFunctionResult_def JS_FreeValue_def)
  then show ?thesis
    by (simp add: invoke_def object_call_def toy_handle_sel Py_CheckFunctionResult_def)
qed

subsection \<open>The argument whitelist\<close>

text \<open>
  C4, as the code has it. On a handle with a valid context, if any argument passes
  neither \<open>PyLong_Check\<close> (which \<open>int\<close> and \<open>bool\<close> pass) nor \<open>PyUnicode_Check\<close>, \<open>invoke\<close>
  raises the rejection error and the world is as before: no JS value was made and the
  engine was not called.
\<close>

theorem whitelist_rejection:
  "context self \<noteq> NULL \<Longrightarrow>
   \<exists>item\<in>set args. \<not> PyLong_Check item \<and> \<not> PyUnicode_Check item \<Longrightarrow>
   object_call E self args w =
     (PyNULL,
      w\<lparr>error_indicator :=
          Some (PyErr PyExc_ValueError ''Unsupported type when calling quickjs object'')\<rparr>)
   \<and> invoke E self args w =
     (Raises (PyErr PyExc_ValueError ''Unsupported type when calling quickjs object''),
      w\<lparr>error_indicator := None\<rparr>)"
  by (simp add: invoke_def object_call_def check_rejects Py_CheckFunctionResult_def
      PyErr_Format_def)

theorem whitelist_rejection_witness:
  "context toy_handle \<noteq> NULL
   \<and> \<not> PyLong_Check (PyFloat 0) \<and> \<not> PyUnicode_Check (PyFloat 0)
   \<and> invoke toy_engine toy_handle [PyLong 3, PyFloat 0, PyUnicode ''a''] w0 =
       (Raises (PyErr PyExc_ValueError ''Unsupported type when calling quickjs object''), w0)"
proof -
  have h1: "context toy_handle \<noteq> NULL"
    by (simp add: toy_handle_sel)
  have h2: "\<exists>item\<in>set [PyLong 3, PyFloat 0, PyUnicode ''a''].
      \<not> PyLong_Check item \<and> \<not> PyUnicode_Check item"
    by simp
  have w: "w0\<lparr>error_indicator := None\<rparr> = w0"
    by (simp add: w0_def)
  from whitelist_rejection [OF h1 h2, of toy_engine w0] h1 w show ?thesis by simp
qed

text \<open>
  Without the valid context the statement fails: a handle whose context is \<open>NULL\<close>
  answers a float argument with \<open>None\<close>. And \<open>True\<close> is not rejected: it passes
  \<open>PyLong_Check\<close> and reaches the engine as the integer 1.
\<close>

theorem whitelist_rejection_counterexample:
  "invoke toy_engine \<lparr>context = NULL, object = js_fun\<rparr> [PyFloat 0] w0 = (Returns PyNone, w0)
   \<and> \<not> PyUnicode_Check (PyBool True)
   \<and> invoke toy_engine toy_handle [PyBool True] w0 =
       (Returns (PyLong 1),
        \<lparr>trace = [EvCall 2 js_fun JS_NULL 1 [JS_MKVAL JS_TAG_INT 1],
                  EvFreeValue 2 (JS_MKVAL JS_TAG_INT 1), EvFreeValue 2 (JS_MKVAL JS_TAG_INT 1)],
         current_exception = JS_NULL, error_indicator = None\<rparr>)"
proof -
  have chk: "object_call_check [PyBool True] w0 = (True, w0)"
    by simp
  have conv: "object_call_convert toy_engine 2 [PyBool True] w0 = (Some [JS_MKVAL JS_TAG_INT 1], w0)"
    by simp
  have call: "JS_Call toy_engine 2 js_fun JS_NULL 1 [JS_MKVAL JS_TAG_INT 1] w0
     = (JS_MKVAL JS_TAG_INT 1,
        \<lparr>trace = [EvCall 2 js_fun JS_NULL 1 [JS_MKVAL JS_TAG_INT 1]],
         current_exception = JS_NULL, error_indicator = None\<rparr>)"
    by (simp add: JS_Call_def toy_engine_sel toy_tags JS_TAG_defs emit_def w0_def)
  have none: "invoke toy_engine \<lparr>context = NULL, object = js_fun\<rparr> [PyFloat 0] w0
      = (Returns PyNone, w0)"
    by (simp add: invoke_def object_call_def Py_CheckFunctionResult_def w0_sel)
  have "invoke toy_engine toy_handle [PyBool True] w0 =
       (Returns (PyLong 1),
        \<lparr>trace = [EvCall 2 js_fun JS_NULL 1 [JS_MKVAL JS_TAG_INT 1],
                  EvFreeValue 2 (JS_MKVAL JS_TAG_INT 1), EvFreeValue 2 (JS_MKVAL JS_TAG_INT 1)],
         current_exception = JS_NULL, error_indicator = None\<rparr>)"
    by (simp add: invoke_def object_call_def toy_handle_sel chk conv call JS_FreeValue_def emit_def
        to_python_int toy_tags Py_CheckFunctionResult_def
        del: object_call_convert.simps object_call_check.simps)
  with none show ?thesis by simp
qed

subsection \<open>The life of a session\<close>

text \<open>
  C6, as the code has it. \<open>context_new\<close> fails only when the session object was not
  allocated, and then it creates no runtime and no context. Otherwise it creates a
  runtime, then a context on that runtime, and returns the session holding what the
  engine returned for each.
\<close>

theorem session_construction:
  "context_new E None w = (None, w)
   \<and> context_new E (Some mem) w =
       (let rt = JS_NewRuntime_ret E w;
            c = JS_NewContext_ret E (emit (EvNewRuntime rt) w) rt
        in (Some \<lparr>runtime = rt, jscontext = c\<rparr>,
            w\<lparr>trace := trace w @ [EvNewRuntime rt, EvNewContext rt c]\<rparr>))
   \<and> (fst (context_new E alloc w) = None \<longleftrightarrow> alloc = None)"
  by (cases alloc)
    (simp_all add: context_new_def JS_NewRuntime_def JS_NewContext_def Let_def emit_def split_def)

theorem session_construction_witness:
  "context_new toy_engine None w0 = (None, w0)
   \<and> context_new toy_engine (Some \<lparr>runtime = 0, jscontext = 0\<rparr>) w0 =
       (Some \<lparr>runtime = 1, jscontext = 2\<rparr>,
        w0\<lparr>trace := trace w0 @ [EvNewRuntime 1, EvNewContext 1 2]\<rparr>)"
  using session_construction [of toy_engine w0 "\<lparr>runtime = 0, jscontext = 0\<rparr>" None]
  by (simp add: Let_def toy_engine_sel)

text \<open>
  With an engine that creates the runtime 1 and then fails to create a context,
  \<open>context_new\<close> returns a session whose context is \<open>NULL\<close>, and the runtime is not
  freed.
\<close>

theorem session_construction_counterexample:
  "context_new toy_engine_no_context (Some \<lparr>runtime = 0, jscontext = 0\<rparr>) w0 =
     (Some \<lparr>runtime = 1, jscontext = NULL\<rparr>,
      \<lparr>trace = [EvNewRuntime 1, EvNewContext 1 NULL], current_exception = JS_NULL,
       error_indicator = None\<rparr>)"
  by (simp add: context_new_def JS_NewRuntime_def JS_NewContext_def Let_def emit_def
      toy_engine_no_context_def toy_engine_def w0_def)

text \<open>
  C9. \<open>context_dealloc\<close> frees the context and then the runtime. Whatever the host did
  with the session before (evaluations and calls that returned or raised, and handles
  dying), nothing else frees a context or a runtime: when the run gets to the
  destruction, the frees of contexts and runtimes in the events of the session's life
  are that one pair. (A run in which a step crashes ends at that step.)
\<close>

theorem session_destroy:
  "emitted w (context_dealloc self w) = [EvFreeContext (jscontext self), EvFreeRuntime (runtime self)]
   \<and> (host_run E self steps w = Some w' \<longrightarrow>
        filter is_session_release (emitted w (context_dealloc self w'))
          = [EvFreeContext (jscontext self), EvFreeRuntime (runtime self)])"
proof -
  have 1: "emitted w (context_dealloc self w)
      = [EvFreeContext (jscontext self), EvFreeRuntime (runtime self)]"
    by (simp add: context_dealloc_def JS_FreeContext_def JS_FreeRuntime_def)
  have 2: "filter is_session_release (emitted w (context_dealloc self w'))
          = [EvFreeContext (jscontext self), EvFreeRuntime (runtime self)]"
    if r: "host_run E self steps w = Some w'"
  proof -
    obtain evs where e: "trace w' = trace w @ evs" "filter is_session_release evs = []"
      using host_run_trace [OF r] by blast
    have "trace (context_dealloc self w')
        = trace w @ (evs @ [EvFreeContext (jscontext self), EvFreeRuntime (runtime self)])"
      by (simp add: context_dealloc_def JS_FreeContext_def JS_FreeRuntime_def e)
    then have "emitted w (context_dealloc self w')
        = evs @ [EvFreeContext (jscontext self), EvFreeRuntime (runtime self)]"
      by (rule emitted_append)
    then show ?thesis by (simp add: e)
  qed
  from 1 2 show ?thesis by blast
qed

lemma toy_run: "host_run toy_engine toy_session toy_steps w0 \<noteq> None"
  by code_simp

theorem session_destroy_witness:
  "host_run toy_engine toy_session toy_steps w0 \<noteq> None
   \<and> emitted w0 (context_dealloc toy_session w0) = [EvFreeContext 2, EvFreeRuntime 1]
   \<and> filter is_session_release
        (emitted w0 (context_dealloc toy_session
           (the (host_run toy_engine toy_session toy_steps w0))))
       = [EvFreeContext 2, EvFreeRuntime 1]"
proof -
  from toy_run obtain w' where r: "host_run toy_engine toy_session toy_steps w0 = Some w'"
    by blast
  from session_destroy [of w0 toy_session toy_engine toy_steps w'] r show ?thesis
    by (simp add: toy_session_def)
qed

text \<open>The raising steps of that run, one by one.\<close>

lemma toy_error_paths:
  "fst (evaluate toy_engine toy_session (Inr ''throw 1'') w0)
     = Raises (PyErr JSException ''Error: boom'')"
  "fst (invoke toy_engine toy_handle [PyFloat 0] w0)
     = Raises (PyErr PyExc_ValueError ''Unsupported type when calling quickjs object'')"
  "fst (invoke toy_engine toy_handle [PyLong (2 ^ 63)] w0) = Raises (HostErr PyExc_SystemError)"
  "fst (evaluate toy_engine toy_session (Inl (HostErr PyExc_TypeError)) w0)
     = Raises (HostErr PyExc_TypeError)"
  by code_simp+

end
